theory Spec2Isabelle
  imports Complex_Main "HOL-Library.Word" "HOL-Library.List_Lexorder" "HOL-Library.Product_Lexorder"
begin

section \<open>JavaScript values\<close>

text \<open>
  A JavaScript string is a sequence of UTF-16 code units. String literals of the source
  are ASCII and are written through \<open>js\<close>. A JavaScript number read from a JSON payload is
  finite; it is modelled as a real, which leaves the rounding of IEEE doubles out.
\<close>

type_synonym jsstring = "16 word list"

definition js :: "string \<Rightarrow> jsstring" where
  "js s = map (\<lambda>c. of_nat (of_char c)) s"

text \<open>
  \<open>String.prototype.trim\<close> removes the ECMAScript WhiteSpace and LineTerminator code
  points from both ends. All of them lie in the basic plane, so one code unit each.
\<close>

definition is_white_space :: "16 word \<Rightarrow> bool" where
  "is_white_space c \<longleftrightarrow>
     (0x09 \<le> c \<and> c \<le> 0x0D) \<or> c = 0x20 \<or> c = 0xA0 \<or> c = 0x1680 \<or>
     (0x2000 \<le> c \<and> c \<le> 0x200A) \<or> c = 0x2028 \<or> c = 0x2029 \<or> c = 0x202F \<or>
     c = 0x205F \<or> c = 0x3000 \<or> c = 0xFEFF"

definition trim :: "jsstring \<Rightarrow> jsstring" where
  "trim s = rev (dropWhile is_white_space (rev (dropWhile is_white_space s)))"

text \<open>A parsed JSON payload; \<open>None\<close> of type \<open>json option\<close> stands for \<open>undefined\<close>.\<close>

datatype json =
    JNull
  | JBool bool
  | JNum real
  | JStr jsstring
  | JArr "json list"
  | JObj "(jsstring \<times> json) list"

text \<open>
  What a rejected request or a failing statement throws: a plain \<open>Error\<close> with its
  message, a \<open>TypeError\<close>, or the HTTP client's error, which carries the body of the
  response when the server answered (\<open>err.response?.data\<close>).
\<close>

datatype js_error =
    Error jsstring
  | TypeError
  | AxiosError "json option"

text \<open>Truthiness of a value, as \<open>||\<close> and \<open>if\<close> test it.\<close>

fun truthy :: "json option \<Rightarrow> bool" where
  "truthy None = False"
| "truthy (Some JNull) = False"
| "truthy (Some (JBool b)) = b"
| "truthy (Some (JNum x)) = (x \<noteq> 0)"
| "truthy (Some (JStr s)) = (s \<noteq> [])"
| "truthy (Some (JArr _)) = True"
| "truthy (Some (JObj _)) = True"

text \<open>
  Reading a property: \<open>v.name\<close> throws a TypeError on \<open>null\<close> and \<open>undefined\<close>, looks
  the key up in an object, and is \<open>undefined\<close> on the other values for the names used
  here (\<open>status\<close>, \<open>detail\<close>). \<open>v?.name\<close> is \<open>undefined\<close> where \<open>v.name\<close> throws.
\<close>

fun get_member :: "json option \<Rightarrow> jsstring \<Rightarrow> js_error + json option" where
  "get_member None name = Inl TypeError"
| "get_member (Some JNull) name = Inl TypeError"
| "get_member (Some (JObj kvs)) name = Inr (map_of kvs name)"
| "get_member (Some _) name = Inr None"

definition get_member_opt :: "json option \<Rightarrow> jsstring \<Rightarrow> json option" where
  "get_member_opt v name = (case get_member v name of Inl _ \<Rightarrow> None | Inr r \<Rightarrow> r)"

section \<open>types/evaluation.ts\<close>

record RetrievalMetrics =
  recall_at_5 :: real
  recall_at_10 :: real
  ndcg_at_10 :: real
  mrr :: real
  hit_at_5 :: bool
  hit_at_10 :: bool

record GenerationMetrics =
  faithfulness :: "real option"
  answer_relevancy :: "real option"
  context_precision :: "real option"
  context_recall :: "real option"

record LatencyBreakdown =
  total_ms :: real
  query_rewrite_ms :: real
  retrieval_ms :: real
  rerank_ms :: real
  generation_ms :: real

record RetrievedDocument =
  doc_id :: jsstring
  content :: jsstring
  score :: real
  rank :: nat

text \<open>Fields that several interfaces share carry a prefix: \<open>res_\<close> here, \<open>req_\<close> below.\<close>

record EvaluationResult =
  res_question :: jsstring
  res_answer :: jsstring
  res_ground_truth :: "jsstring option"
  retrieved_docs :: "RetrievedDocument list"
  retrieval_metrics :: "RetrievalMetrics option"
  generation_metrics :: "GenerationMetrics option"
  latency :: LatencyBreakdown
  res_profile_id :: jsstring
  routing_decision :: jsstring

record ProfileInfo =
  prof_id :: jsstring
  prof_name :: jsstring
  description :: jsstring
  retriever_type :: jsstring
  use_reranker :: bool
  use_query_rewrite :: bool

record SingleEvalRequest =
  req_question :: jsstring
  req_ground_truth :: "jsstring option"
  relevant_doc_ids :: "jsstring list option"
  req_profile_id :: jsstring
  include_generation_metrics :: bool

section \<open>EvaluationPage.tsx\<close>

text \<open>The component's state: one field for each \<open>useState\<close> hook.\<close>

record page_state =
  profiles :: "ProfileInfo list"
  selectedProfileId :: jsstring
  question :: jsstring
  groundTruth :: jsstring
  includeRagas :: bool
  isLoading :: bool
  results :: "EvaluationResult list"
  ragasAvailable :: bool
  error :: "json option"

definition initial_page_state :: page_state where
  "initial_page_state =
     \<lparr>profiles = [], selectedProfileId = js ''hybrid_rerank'', question = [],
      groundTruth = [], includeRagas = True, isLoading = False, results = [],
      ragasAvailable = False, error = None\<rparr>"

text \<open>\<open>err.response?.data?.detail\<close>: only the HTTP client's error has a response.\<close>

fun error_detail :: "js_error \<Rightarrow> json option" where
  "error_detail (AxiosError (Some d)) = get_member_opt (Some d) (js ''detail'')"
| "error_detail _ = None"

text \<open>The request object \<open>handleEvaluate\<close> passes to \<open>evaluateSingle\<close>.\<close>

definition evaluation_request :: "page_state \<Rightarrow> SingleEvalRequest" where
  "evaluation_request s =
     \<lparr>req_question = trim (question s),
      req_ground_truth =
        (if trim (groundTruth s) = [] then None else Some (trim (groundTruth s))),
      relevant_doc_ids = None,
      req_profile_id = selectedProfileId s,
      include_generation_metrics = (includeRagas s \<and> ragasAvailable s)\<rparr>"

text \<open>
  \<open>handleEvaluate\<close>, with the evaluation endpoint as a parameter: \<open>evaluateSingle\<close>
  maps the request to what the awaited call returns or throws. The result is the state
  after the handler and the requests it issued, in order.
\<close>

definition handleEvaluate ::
  "(SingleEvalRequest \<Rightarrow> js_error + EvaluationResult) \<Rightarrow> page_state
     \<Rightarrow> page_state \<times> SingleEvalRequest list" where
  "handleEvaluate evaluateSingle s =
     (if trim (question s) = [] then
        (s\<lparr>error := Some (JStr (js ''Please enter a question''))\<rparr>, [])
      else
        let s1 = s\<lparr>isLoading := True, error := None\<rparr>
        in case evaluateSingle (evaluation_request s) of
             Inr result \<Rightarrow>
               (s1\<lparr>results := result # results s1, isLoading := False\<rparr>,
                [evaluation_request s])
           | Inl err \<Rightarrow>
               (s1\<lparr>error :=
                     (if truthy (error_detail err) then error_detail err
                      else Some (JStr (js ''Evaluation failed''))),
                   isLoading := False\<rparr>,
                [evaluation_request s]))"

text \<open>\<open>const latestResult = results[0]\<close>: \<open>undefined\<close> on the empty list.\<close>

definition latestResult :: "page_state \<Rightarrow> EvaluationResult option" where
  "latestResult s = (case results s of [] \<Rightarrow> None | r # _ \<Rightarrow> Some r)"

section \<open>ChatInterface.tsx\<close>

text \<open>
  The props the handler reads and the \<open>input\<close> state. \<open>handleSend\<close> returns the
  arguments of its \<open>onSend\<close> calls and the new \<open>input\<close>.
\<close>

record chat_state =
  input :: jsstring
  chat_isLoading :: bool
  isConnected :: bool

definition handleSend :: "chat_state \<Rightarrow> jsstring list \<times> chat_state" where
  "handleSend c =
     (if trim (input c) \<noteq> [] \<and> \<not> chat_isLoading c \<and> isConnected c
      then ([trim (input c)], c\<lparr>input := []\<rparr>)
      else ([], c))"

section \<open>EvaluationPage.tsx: the mount effect\<close>

text \<open>
  \<open>loadInitialData\<close> of the mount effect: \<open>Promise.all\<close> rejects when either request
  does, and the \<open>catch\<close> block then only sets the error.
\<close>

record eval_health =
  health_status :: jsstring
  ragas_available :: bool
  profiles_count :: real

definition loadInitialData ::
  "js_error + ProfileInfo list \<Rightarrow> js_error + eval_health \<Rightarrow> page_state \<Rightarrow> page_state" where
  "loadInitialData getProfiles checkEvalHealth s =
     (case (getProfiles, checkEvalHealth) of
        (Inr profilesData, Inr healthData) \<Rightarrow>
          s\<lparr>profiles := profilesData, ragasAvailable := ragas_available healthData\<rparr>
      | _ \<Rightarrow> s\<lparr>error := Some (JStr (js ''Failed to load evaluation module''))\<rparr>)"

section \<open>services/api.ts\<close>

record source_item =
  src_content :: jsstring
  src_source :: "jsstring option"
  src_score :: "real option"

record BackendQueryResponse =
  answer :: jsstring
  sources :: "source_item list option"
  processing_time_ms :: real

record QueryResponse =
  qr_answer :: jsstring
  qr_sources :: "jsstring list option"

text \<open>
  \<open>sendQuery\<close>. The parameter \<open>post\<close> is \<open>apiClient.post\<close>: it maps the URL and the
  request body to the response's \<open>data\<close>, or to what the rejected promise throws.
  \<open>sources?.map\<close> is \<open>undefined\<close> when the response has no \<open>sources\<close>.
\<close>

definition sendQuery ::
  "(jsstring \<Rightarrow> json \<Rightarrow> js_error + BackendQueryResponse) \<Rightarrow> jsstring
     \<Rightarrow> js_error + QueryResponse" where
  "sendQuery post q =
     (case post (js ''/api/v1/query'') (JObj [(js ''question'', JStr q)]) of
        Inl e \<Rightarrow> Inl e
      | Inr response_data \<Rightarrow>
          Inr \<lparr>qr_answer = answer response_data,
               qr_sources = map_option (map src_content) (sources response_data)\<rparr>)"

record BackendUploadResponse =
  up_task_id :: jsstring
  up_file_name :: jsstring
  up_status :: jsstring
  up_message :: jsstring

record BackendUploadStatusResponse =
  us_task_id :: jsstring
  us_status :: jsstring
  us_file_name :: jsstring
  us_chunks_created :: "real option"
  us_error :: "jsstring option"
  us_completed_at :: "jsstring option"

record upload_data =
  file_name :: jsstring
  chunks_created :: real
  data_doc_id :: jsstring

record UploadResponse =
  success :: bool
  message :: jsstring
  data :: upload_data

text \<open>
  \<open>pollUploadStatus\<close>. The parameter \<open>get\<close> is \<open>apiClient.get\<close> over the run of the
  loop: \<open>get url i\<close> is the outcome of the request the iteration with counter \<open>i\<close>
  makes. The one-second pause between two requests has no effect on the result.
\<close>

function pollUploadStatus_from ::
  "(jsstring \<Rightarrow> nat \<Rightarrow> js_error + BackendUploadStatusResponse) \<Rightarrow> jsstring \<Rightarrow> nat \<Rightarrow> nat
     \<Rightarrow> js_error + BackendUploadStatusResponse" where
  "pollUploadStatus_from get taskId maxAttempts i =
     (if i < maxAttempts then
        (case get (js ''/api/v1/upload/'' @ taskId) i of
           Inl e \<Rightarrow> Inl e
         | Inr response_data \<Rightarrow>
             if us_status response_data = js ''completed''
                \<or> us_status response_data = js ''failed''
             then Inr response_data
             else pollUploadStatus_from get taskId maxAttempts (i + 1))
      else Inl (Error (js ''Upload timeout'')))"
  by pat_completeness auto
termination
  by (relation "measure (\<lambda>(get, taskId, maxAttempts, i). maxAttempts - i)") auto

declare pollUploadStatus_from.simps [simp del]

definition pollUploadStatus ::
  "(jsstring \<Rightarrow> nat \<Rightarrow> js_error + BackendUploadStatusResponse) \<Rightarrow> jsstring \<Rightarrow> nat
     \<Rightarrow> js_error + BackendUploadStatusResponse" where
  "pollUploadStatus get taskId maxAttempts = pollUploadStatus_from get taskId maxAttempts 0"

text \<open>
  \<open>uploadDocument\<close>, for a file of any type \<open>'f\<close>; \<open>post\<close> is the multipart upload
  request. \<open>pollUploadStatus\<close> is called with its default of 60 attempts.
\<close>

definition uploadDocument ::
  "(jsstring \<Rightarrow> 'f \<Rightarrow> js_error + BackendUploadResponse)
     \<Rightarrow> (jsstring \<Rightarrow> nat \<Rightarrow> js_error + BackendUploadStatusResponse) \<Rightarrow> 'f
     \<Rightarrow> js_error + UploadResponse" where
  "uploadDocument post get file =
     (case post (js ''/api/v1/upload'') file of
        Inl e \<Rightarrow> Inl e
      | Inr uploadResponse \<Rightarrow>
          (case pollUploadStatus get (up_task_id uploadResponse) 60 of
             Inl e \<Rightarrow> Inl e
           | Inr statusResponse \<Rightarrow>
               if us_status statusResponse = js ''failed'' then
                 Inl (Error (case us_error statusResponse of
                               None \<Rightarrow> js ''Upload failed''
                             | Some m \<Rightarrow> if m = [] then js ''Upload failed'' else m))
               else
                 Inr \<lparr>success = True,
                      message = js ''Upload completed'',
                      data =
                        \<lparr>file_name = us_file_name statusResponse,
                         chunks_created =
                           (case us_chunks_created statusResponse of
                              None \<Rightarrow> 0
                            | Some n \<Rightarrow> if n = 0 then 0 else n),
                         data_doc_id = us_task_id statusResponse\<rparr>\<rparr>))"

text \<open>
  \<open>checkHealth\<close>. The body of the \<open>try\<close> block may throw twice: the request may be
  rejected, and reading \<open>status\<close> of a \<open>null\<close> or \<open>undefined\<close> payload is a TypeError.
  The \<open>catch\<close> block turns both into \<open>false\<close>. The result type keeps the possibility
  of a throw, so that its absence is a property and not a convention of the model.
\<close>

definition checkHealth_try :: "(jsstring \<Rightarrow> js_error + json option) \<Rightarrow> js_error + bool" where
  "checkHealth_try get =
     (case get (js ''/health'') of
        Inl e \<Rightarrow> Inl e
      | Inr response_data \<Rightarrow>
          (case get_member response_data (js ''status'') of
             Inl e \<Rightarrow> Inl e
           | Inr v \<Rightarrow> Inr (v = Some (JStr (js ''ok'')))))"

definition checkHealth :: "(jsstring \<Rightarrow> js_error + json option) \<Rightarrow> js_error + bool" where
  "checkHealth get = (case checkHealth_try get of Inl _ \<Rightarrow> Inr False | Inr b \<Rightarrow> Inr b)"

section \<open>LatencyChart.tsx\<close>

text \<open>
  The result of a division or a product of numbers: a finite number, NaN or an infinity.
  Division by zero is the case that matters here (\<open>0 / 0\<close> is NaN, \<open>x / 0\<close> an
  infinity); negative zero and overflow are left out.
\<close>

datatype jsnum = Fin real | NaN | PosInf | NegInf

definition js_div :: "real \<Rightarrow> real \<Rightarrow> jsnum" where
  "js_div a b =
     (if b \<noteq> 0 then Fin (a / b) else if a = 0 then NaN else if 0 < a then PosInf else NegInf)"

fun js_mul :: "jsnum \<Rightarrow> real \<Rightarrow> jsnum" where
  "js_mul (Fin x) c = Fin (x * c)"
| "js_mul NaN c = NaN"
| "js_mul PosInf c = (if 0 < c then PosInf else if c < 0 then NegInf else NaN)"
| "js_mul NegInf c = (if 0 < c then NegInf else if c < 0 then PosInf else NaN)"

fun js_less :: "jsnum \<Rightarrow> real \<Rightarrow> bool" where
  "js_less (Fin x) c = (x < c)"
| "js_less NaN c = False"
| "js_less PosInf c = False"
| "js_less NegInf c = True"

fun js_le :: "jsnum \<Rightarrow> real \<Rightarrow> bool" where
  "js_le (Fin x) c = (x \<le> c)"
| "js_le NaN c = False"
| "js_le PosInf c = False"
| "js_le NegInf c = True"

record segment =
  seg_name :: jsstring
  seg_value :: real
  seg_color :: jsstring

definition segments :: "LatencyBreakdown \<Rightarrow> segment list" where
  "segments lb =
     [\<lparr>seg_name = js ''Query Rewrite'', seg_value = query_rewrite_ms lb,
       seg_color = js ''bg-blue-500''\<rparr>,
      \<lparr>seg_name = js ''Retrieval'', seg_value = retrieval_ms lb,
       seg_color = js ''bg-green-500''\<rparr>,
      \<lparr>seg_name = js ''Reranking'', seg_value = rerank_ms lb,
       seg_color = js ''bg-amber-500''\<rparr>,
      \<lparr>seg_name = js ''Generation'', seg_value = generation_ms lb,
       seg_color = js ''bg-purple-500''\<rparr>]"

text \<open>\<open>const width = (seg.value / total) * 100\<close>, with \<open>total = latency.total_ms\<close>; the prop \<open>latency\<close> is \<open>lb\<close>.\<close>

definition segment_width :: "LatencyBreakdown \<Rightarrow> segment \<Rightarrow> jsnum" where
  "segment_width lb seg = js_mul (js_div (seg_value seg) (total_ms lb)) 100"

text \<open>
  The stacked bar: one entry for each segment, \<open>None\<close> where the component renders
  nothing (\<open>width < 1\<close>), otherwise the colour and the width of the bar.
\<close>

definition stacked_bar :: "LatencyBreakdown \<Rightarrow> (jsstring \<times> jsnum) option list" where
  "stacked_bar lb =
     map (\<lambda>seg. let width = segment_width lb seg
                in if js_less width 1 then None else Some (seg_color seg, width))
         (segments lb)"

section \<open>MetricsCard.tsx\<close>

datatype metric_format = percent | number | ms

record MetricsCardProps =
  title :: jsstring
  mc_value :: "real option"
  subtitle :: "jsstring option"
  format :: "metric_format option"
  target :: "real option"

text \<open>The \<open>format\<close> prop defaults to \<open>'percent'\<close>.\<close>

definition format_of :: "MetricsCardProps \<Rightarrow> metric_format" where
  "format_of props = (case format props of None \<Rightarrow> percent | Some f \<Rightarrow> f)"

text \<open>
  \<open>formatValue\<close>. \<open>Number.prototype.toFixed\<close> belongs to the language, not to the
  component, and is a parameter: \<open>toFixed x d\<close> is \<open>x.toFixed(d)\<close>.
\<close>

definition formatValue ::
  "(real \<Rightarrow> nat \<Rightarrow> jsstring) \<Rightarrow> metric_format \<Rightarrow> real option \<Rightarrow> jsstring" where
  "formatValue toFixed fmt val =
     (case val of
        None \<Rightarrow> js ''N/A''
      | Some v \<Rightarrow>
          (case fmt of
             percent \<Rightarrow> toFixed (v * 100) 1 @ js ''%''
           | ms \<Rightarrow> toFixed v 0 @ js ''ms''
           | number \<Rightarrow> toFixed v 2))"

definition getStatusColor :: "MetricsCardProps \<Rightarrow> jsstring" where
  "getStatusColor props =
     (case (mc_value props, target props) of
        (Some v, Some t) \<Rightarrow>
          if format_of props = ms then
            (if v \<le> t then js ''text-green-600'' else js ''text-amber-600'')
          else
            (if v \<ge> t then js ''text-green-600'' else js ''text-amber-600'')
      | _ \<Rightarrow> js ''text-gray-600'')"

datatype trend_icon = Minus | TrendingUp jsstring | TrendingDown jsstring

definition getTrendIcon :: "MetricsCardProps \<Rightarrow> trend_icon" where
  "getTrendIcon props =
     (case (mc_value props, target props) of
        (Some v, Some t) \<Rightarrow>
          if format_of props = ms then
            (if v \<le> t then TrendingDown (js ''text-green-500'')
             else TrendingUp (js ''text-amber-500''))
          else
            (if v \<ge> t then TrendingUp (js ''text-green-500'')
             else TrendingDown (js ''text-amber-500''))
      | _ \<Rightarrow> Minus)"

text \<open>
  What the card shows: the formatted value with its status colour and, when a target
  is given, the trend icon and the formatted target.
\<close>

record rendered_card =
  value_text :: jsstring
  value_class :: jsstring
  target_part :: "(trend_icon \<times> jsstring) option"

definition MetricsCard :: "(real \<Rightarrow> nat \<Rightarrow> jsstring) \<Rightarrow> MetricsCardProps \<Rightarrow> rendered_card" where
  "MetricsCard toFixed props =
     \<lparr>value_text = formatValue toFixed (format_of props) (mc_value props),
      value_class = getStatusColor props,
      target_part =
        (case target props of
           None \<Rightarrow> None
         | Some t \<Rightarrow>
             Some (getTrendIcon props, formatValue toFixed (format_of props) (Some t)))\<rparr>"

text \<open>
  An implementation of \<open>toFixed\<close> for numbers of magnitude below \<open>10^21\<close>, after the
  language standard: the sign, then the integer nearest to \<open>x * 10^d\<close> (the larger one
  on a tie) in decimal digits, padded with zeros, with the point before the last \<open>d\<close>.
\<close>

definition digit_char :: "nat \<Rightarrow> 16 word" where
  "digit_char d = js ''0123456789'' ! (d mod 10)"

function decimal_digits :: "nat \<Rightarrow> jsstring" where
  "decimal_digits n =
     (if n < 10 then [digit_char n] else decimal_digits (n div 10) @ [digit_char (n mod 10)])"
  by pat_completeness auto
termination
  by (relation "measure id") auto

declare decimal_digits.simps [simp del]

definition toFixed_decimal :: "real \<Rightarrow> nat \<Rightarrow> jsstring" where
  "toFixed_decimal x d =
     (let n = nat \<lfloor>\<bar>x\<bar> * 10 ^ d + 1 / 2\<rfloor>;
          m = decimal_digits n;
          padded = replicate (d + 1 - length m) (digit_char 0) @ m;
          k = length padded;
          body = (if d = 0 then m else take (k - d) padded @ js ''.'' @ drop (k - d) padded)
      in (if x < 0 then js ''-'' else []) @ body)"

section \<open>The retrieval core behind the REST boundary\<close>

text \<open>
  Modelled from the spec: the fusion step of the Hybrid Retriever (Reciprocal Rank
  Fusion) is not among the source files, which only hold the client of the REST
  interface. The definitions follow section 4.3 of the specification. A ranked list is
  a list of retrieved documents, each with its own 1-based \<open>rank\<close>; the rank of a
  document in a list is that of its entry, and a list that does not contain the
  document contributes 0.
\<close>

definition rank_in :: "RetrievedDocument list \<Rightarrow> jsstring \<Rightarrow> nat option" where
  "rank_in l d = map_option rank (find (\<lambda>e. doc_id e = d) l)"

definition rrf_term :: "real \<Rightarrow> RetrievedDocument list \<Rightarrow> jsstring \<Rightarrow> real" where
  "rrf_term rrf_constant l d =
     (case rank_in l d of None \<Rightarrow> 0 | Some r \<Rightarrow> 1 / (rrf_constant + real r))"

definition fused_score :: "real \<Rightarrow> RetrievedDocument list list \<Rightarrow> jsstring \<Rightarrow> real" where
  "fused_score rrf_constant ls d = sum_list (map (\<lambda>l. rrf_term rrf_constant l d) ls)"

text \<open>
  Modelled from the spec: the unique doc_ids of all lists, sorted by fused score
  descending, ties broken by the lowest rank among the contributing lists and then by
  doc_id; the first \<open>k\<close> are returned with ranks \<open>1, 2, ...\<close> and the fused score as
  score. The content is that of the first entry of the document in the input.
\<close>

definition min_rank :: "RetrievedDocument list list \<Rightarrow> jsstring \<Rightarrow> nat" where
  "min_rank ls d =
     (case concat (map (\<lambda>l. case rank_in l d of None \<Rightarrow> [] | Some r \<Rightarrow> [r]) ls) of
        [] \<Rightarrow> 0
      | r # rs \<Rightarrow> fold min rs r)"

definition fused_ids :: "RetrievedDocument list list \<Rightarrow> jsstring list" where
  "fused_ids ls = remdups (map doc_id (concat ls))"

definition fused_order :: "real \<Rightarrow> RetrievedDocument list list \<Rightarrow> jsstring list" where
  "fused_order rrf_constant ls =
     sort_key (\<lambda>d. (- fused_score rrf_constant ls d, min_rank ls d, d)) (fused_ids ls)"

definition content_of :: "RetrievedDocument list list \<Rightarrow> jsstring \<Rightarrow> jsstring" where
  "content_of ls d =
     (case find (\<lambda>e. doc_id e = d) (concat ls) of None \<Rightarrow> [] | Some e \<Rightarrow> content e)"

definition rrf_fuse ::
  "real \<Rightarrow> RetrievedDocument list list \<Rightarrow> nat \<Rightarrow> RetrievedDocument list" where
  "rrf_fuse rrf_constant ls k =
     map (\<lambda>(i, d). \<lparr>doc_id = d, content = content_of ls d,
                     score = fused_score rrf_constant ls d, rank = i + 1\<rparr>)
         (enumerate 0 (take k (fused_order rrf_constant ls)))"

text \<open>
  Modelled from the spec: \<open>recall_at_k\<close> of the Evaluation Engine (section 4.6), which
  is not among the source files: the share of the relevant documents found among the
  first \<open>k\<close> retrieved ones, and null (\<open>None\<close>) when no document is relevant.
\<close>

definition recall_at_k :: "nat \<Rightarrow> jsstring list \<Rightarrow> jsstring list \<Rightarrow> real option" where
  "recall_at_k k retrieved relevant =
     (if set relevant = {} then None
      else Some (real (card (set (take k retrieved) \<inter> set relevant))
                 / real (card (set relevant))))"

section \<open>Notions used in the statements\<close>

text \<open>
  A status response ends the polling when its status is \<open>completed\<close> or \<open>failed\<close>;
  \<open>first_terminal_at resp i\<close> says that response \<open>i\<close> of the sequence \<open>resp\<close> is the
  first that does. \<open>failure_message\<close> is the error the response reports, or the
  default text when it reports none.
\<close>

definition terminal :: "BackendUploadStatusResponse \<Rightarrow> bool" where
  "terminal d \<longleftrightarrow> us_status d = js ''completed'' \<or> us_status d = js ''failed''"

definition first_terminal_at :: "(nat \<Rightarrow> BackendUploadStatusResponse) \<Rightarrow> nat \<Rightarrow> bool" where
  "first_terminal_at resp i \<longleftrightarrow> terminal (resp i) \<and> (\<forall>j<i. \<not> terminal (resp j))"

definition failure_message :: "BackendUploadStatusResponse \<Rightarrow> jsstring" where
  "failure_message d =
     (case us_error d of
        None \<Rightarrow> js ''Upload failed''
      | Some m \<Rightarrow> if m = [] then js ''Upload failed'' else m)"

definition upload_result :: "BackendUploadStatusResponse \<Rightarrow> UploadResponse" where
  "upload_result d =
     \<lparr>success = True, message = js ''Upload completed'',
      data = \<lparr>file_name = us_file_name d,
              chunks_created = (case us_chunks_created d of None \<Rightarrow> 0 | Some n \<Rightarrow> n),
              data_doc_id = us_task_id d\<rparr>\<rparr>"

text \<open>Sample values for the concrete instances below.\<close>

definition sample_result :: "jsstring \<Rightarrow> EvaluationResult" where
  "sample_result q =
     \<lparr>res_question = q, res_answer = js ''42'', res_ground_truth = None,
      retrieved_docs = [], retrieval_metrics = None, generation_metrics = None,
      latency = \<lparr>total_ms = 120, query_rewrite_ms = 10, retrieval_ms = 30,
                 rerank_ms = 20, generation_ms = 60\<rparr>,
      res_profile_id = js ''fast'', routing_decision = js ''vectorstore''\<rparr>"

definition sample_status :: "jsstring \<Rightarrow> jsstring option \<Rightarrow> BackendUploadStatusResponse" where
  "sample_status st err =
     \<lparr>us_task_id = js ''t1'', us_status = st, us_file_name = js ''a.pdf'',
      us_chunks_created = Some 7, us_error = err, us_completed_at = None\<rparr>"

definition sample_upload :: BackendUploadResponse where
  "sample_upload =
     \<lparr>up_task_id = js ''t1'', up_file_name = js ''a.pdf'', up_status = js ''pending'',
      up_message = js ''queued''\<rparr>"

definition dense_list :: "RetrievedDocument list" where
  "dense_list =
     [\<lparr>doc_id = js ''d1'', content = js ''one'', score = 0.9, rank = 1\<rparr>,
      \<lparr>doc_id = js ''d2'', content = js ''two'', score = 0.8, rank = 2\<rparr>]"

definition sparse_list :: "RetrievedDocument list" where
  "sparse_list =
     [\<lparr>doc_id = js ''d2'', content = js ''two'', score = 7, rank = 1\<rparr>,
      \<lparr>doc_id = js ''d3'', content = js ''three'', score = 5, rank = 2\<rparr>]"

section \<open>Strings\<close>

lemma of_char_word_inj:
  "(of_nat (of_char x) :: 16 word) = of_nat (of_char y) \<longleftrightarrow> x = y"
proof
  assume h: "(of_nat (of_char x) :: 16 word) = of_nat (of_char y)"
  have small: "(256::nat) < 2 ^ 16"
    by simp
  have "(of_char x :: nat) < 2 ^ 16" and "(of_char y :: nat) < 2 ^ 16"
    using less_trans [OF nat_of_char_less_256 small] by blast+
  then have "take_bit 16 (of_char x :: nat) = of_char x"
    and "take_bit 16 (of_char y :: nat) = of_char y"
    by (simp_all only: take_bit_nat_eq_self)
  then have "(of_char x :: nat) = of_char y"
    using h by (simp add: word_of_nat_eq_iff)
  then show "x = y" by simp
qed simp

lemma js_eq_iff [simp]: "js a = js b \<longleftrightarrow> a = b"
proof -
  have "inj (\<lambda>c::char. (of_nat (of_char c) :: 16 word))"
    by (rule injI) (simp add: of_char_word_inj)
  then show ?thesis
    unfolding js_def by (simp add: inj_map_eq_map)
qed

lemma js_Nil_iff [simp]: "js a = [] \<longleftrightarrow> a = []"
  by (simp add: js_def)

lemma js_append: "js (a @ b) = js a @ js b"
  by (simp add: js_def)

lemma dropWhile_all: "(\<forall>c \<in> set (dropWhile P s). P c) \<longleftrightarrow> (\<forall>c \<in> set s. P c)"
  by (induction s) auto

lemma trim_Nil_iff: "trim s = [] \<longleftrightarrow> (\<forall>c \<in> set s. is_white_space c)"
  by (simp add: trim_def dropWhile_eq_Nil_conv dropWhile_all)

lemma trim_trim_Nil_iff: "trim (trim s) = [] \<longleftrightarrow> trim s = []"
  by (simp add: trim_Nil_iff) (simp add: trim_def dropWhile_all)

section \<open>Blank questions (C1)\<close>

text \<open>
  Claim C1. A question whose trimmed form is empty (the empty string, or white space
  only, see \<open>trim_Nil_iff\<close>) is rejected by both entry points: \<open>handleEvaluate\<close> sets
  the error message and issues no evaluation request, and \<open>handleSend\<close> of the chat
  interface calls \<open>onSend\<close> with nothing. Hence every question that either of them sends
  on has a non-empty trimmed form.
\<close>

theorem blank_question_never_sent:
  "(trim q = [] \<longrightarrow>
      handleEvaluate evaluateSingle (s\<lparr>question := q\<rparr>)
        = (s\<lparr>question := q, error := Some (JStr (js ''Please enter a question''))\<rparr>, [])
      \<and> fst (handleSend (c\<lparr>input := q\<rparr>)) = [])
   \<and> (\<forall>r \<in> set (snd (handleEvaluate evaluateSingle s)). trim (req_question r) \<noteq> [])
   \<and> (\<forall>m \<in> set (fst (handleSend c)). trim m \<noteq> [])"
  by (auto simp: handleEvaluate_def handleSend_def evaluation_request_def Let_def
      trim_trim_Nil_iff split: sum.splits)

theorem blank_question_never_sent_witness:
  "trim [0x20, 0x09, 0x3000] = []
   \<and> handleEvaluate (\<lambda>r. Inr (sample_result (req_question r)))
        (initial_page_state\<lparr>question := [0x20, 0x09, 0x3000]\<rparr>)
      = (initial_page_state\<lparr>question := [0x20, 0x09, 0x3000],
           error := Some (JStr (js ''Please enter a question''))\<rparr>, [])
   \<and> fst (handleSend \<lparr>input = [0x20, 0x09, 0x3000], chat_isLoading = False,
                       isConnected = True\<rparr>) = []
   \<and> map req_question
        (snd (handleEvaluate (\<lambda>r. Inr (sample_result (req_question r)))
           (initial_page_state\<lparr>question := js '' why ''\<rparr>))) = [js ''why'']
   \<and> fst (handleSend \<lparr>input = js '' why '', chat_isLoading = False, isConnected = True\<rparr>)
      = [js ''why'']"
proof -
  have blank: "trim [0x20, 0x09, 0x3000] = []"
    by (simp add: trim_def is_white_space_def)
  have why: "trim (js '' why '') = js ''why''"
    by (simp add: trim_def is_white_space_def js_def)
  note t = blank_question_never_sent [of "[0x20, 0x09, 0x3000]"
      "\<lambda>r. Inr (sample_result (req_question r))" initial_page_state
      "\<lparr>input = [], chat_isLoading = False, isConnected = True\<rparr>"]
  from t blank have a: "handleEvaluate (\<lambda>r. Inr (sample_result (req_question r)))
        (initial_page_state\<lparr>question := [0x20, 0x09, 0x3000]\<rparr>)
      = (initial_page_state\<lparr>question := [0x20, 0x09, 0x3000],
           error := Some (JStr (js ''Please enter a question''))\<rparr>, [])"
    and b: "fst (handleSend \<lparr>input = [0x20, 0x09, 0x3000], chat_isLoading = False,
                       isConnected = True\<rparr>) = []"
    by simp_all
  have c: "map req_question
        (snd (handleEvaluate (\<lambda>r. Inr (sample_result (req_question r)))
           (initial_page_state\<lparr>question := js '' why ''\<rparr>))) = [js ''why'']"
    by (simp add: handleEvaluate_def evaluation_request_def why)
  have d: "fst (handleSend \<lparr>input = js '' why '', chat_isLoading = False, isConnected = True\<rparr>)
      = [js ''why'']"
    by (simp add: handleSend_def why)
  from blank a b c d show ?thesis by simp
qed

section \<open>The history of results (C2)\<close>

text \<open>
  Claim C2, as stated, says that the new result is appended at the end of the history.
  The state update is \<open>[result, ...prev]\<close>: with one earlier result in the history, the
  new one comes first, so the list differs from the earlier list followed by the new
  result.
\<close>

theorem new_result_appended_counterexample:
  "results (fst (handleEvaluate (\<lambda>r. Inr (sample_result (js ''second'')))
                  (initial_page_state\<lparr>question := js ''second'',
                                       results := [sample_result (js ''first'')]\<rparr>)))
     \<noteq> [sample_result (js ''first'')] @ [sample_result (js ''second'')]
   \<and> results (fst (handleEvaluate (\<lambda>r. Inr (sample_result (js ''second'')))
                  (initial_page_state\<lparr>question := js ''second'',
                                       results := [sample_result (js ''first'')]\<rparr>)))
     = [sample_result (js ''second''), sample_result (js ''first'')]"
proof -
  have "trim (js ''second'') = js ''second''"
    by (simp add: trim_def is_white_space_def js_def)
  then show ?thesis
    by (simp add: handleEvaluate_def sample_result_def)
qed

text \<open>
  Claim C2, amended. After a successful evaluation call the history is the new result
  followed by all prior results, unchanged and in their order: the new result is at
  index 0, where \<open>latestResult\<close> reads it, and each prior result moves up by one.
\<close>

theorem new_result_prepended:
  assumes "trim (question s) \<noteq> []"
    and "evaluateSingle (evaluation_request s) = Inr r"
  shows "results (fst (handleEvaluate evaluateSingle s)) = r # results s
         \<and> latestResult (fst (handleEvaluate evaluateSingle s)) = Some r
         \<and> (\<forall>i < length (results s).
              results (fst (handleEvaluate evaluateSingle s)) ! (i + 1) = results s ! i)"
  using assms by (simp add: handleEvaluate_def latestResult_def)

theorem new_result_prepended_witness:
  "trim (question (initial_page_state\<lparr>question := js ''second'',
                                       results := [sample_result (js ''first'')]\<rparr>)) \<noteq> []
   \<and> results (fst (handleEvaluate (\<lambda>r. Inr (sample_result (req_question r)))
                  (initial_page_state\<lparr>question := js ''second'',
                                       results := [sample_result (js ''first'')]\<rparr>)))
     = [sample_result (js ''second''), sample_result (js ''first'')]
   \<and> latestResult (fst (handleEvaluate (\<lambda>r. Inr (sample_result (req_question r)))
                  (initial_page_state\<lparr>question := js ''second'',
                                       results := [sample_result (js ''first'')]\<rparr>)))
     = Some (sample_result (js ''second''))"
proof -
  have tr: "trim (js ''second'') = js ''second''"
    by (simp add: trim_def is_white_space_def js_def)
  have q: "trim (question (initial_page_state\<lparr>question := js ''second'',
                                       results := [sample_result (js ''first'')]\<rparr>)) \<noteq> []"
    by (simp add: tr)
  have e: "(\<lambda>r. Inr (sample_result (req_question r)))
             (evaluation_request (initial_page_state\<lparr>question := js ''second'',
                                       results := [sample_result (js ''first'')]\<rparr>))
           = (Inr (sample_result (js ''second'')) :: js_error + EvaluationResult)"
    by (simp add: evaluation_request_def tr)
  from new_result_prepended
    [of "initial_page_state\<lparr>question := js ''second'',
                            results := [sample_result (js ''first'')]\<rparr>"
        "\<lambda>r. Inr (sample_result (req_question r))" "sample_result (js ''second'')"] q e
  show ?thesis
    by simp
qed

section \<open>sendQuery (C5)\<close>

text \<open>
  Claim C5. \<open>sendQuery\<close> posts the object \<open>{question}\<close> to \<open>/api/v1/query\<close>; for every
  response of the backend it returns the response's answer unchanged and, as sources,
  the \<open>content\<close> of each returned source in the same order, or \<open>undefined\<close> when the
  response has no sources. A rejected request is thrown on as it is.
\<close>

theorem sendQuery_maps_response:
  "(post (js ''/api/v1/query'') (JObj [(js ''question'', JStr q)]) = Inr resp \<longrightarrow>
      sendQuery post q
        = Inr \<lparr>qr_answer = answer resp,
               qr_sources = map_option (map src_content) (sources resp)\<rparr>
      \<and> (sources resp = None \<longrightarrow>
            (\<exists>r. sendQuery post q = Inr r \<and> qr_sources r = None))
      \<and> (\<forall>xs. sources resp = Some xs \<longrightarrow>
            (\<exists>r ys. sendQuery post q = Inr r \<and> qr_answer r = answer resp
               \<and> qr_sources r = Some ys \<and> length ys = length xs
               \<and> (\<forall>i < length xs. ys ! i = src_content (xs ! i)))))
   \<and> (\<forall>e. post (js ''/api/v1/query'') (JObj [(js ''question'', JStr q)]) = Inl e \<longrightarrow>
         sendQuery post q = Inl e)"
  by (simp add: sendQuery_def)

theorem sendQuery_maps_response_witness:
  "sendQuery
     (\<lambda>u b. if u = js ''/api/v1/query'' \<and> b = JObj [(js ''question'', JStr (js ''why''))]
             then Inr \<lparr>answer = js ''because'',
                       sources = Some [\<lparr>src_content = js ''c1'', src_source = None,
                                         src_score = Some 1\<rparr>,
                                       \<lparr>src_content = js ''c2'', src_source = None,
                                         src_score = None\<rparr>],
                       processing_time_ms = 12\<rparr>
             else Inl (AxiosError None))
     (js ''why'')
   = Inr \<lparr>qr_answer = js ''because'', qr_sources = Some [js ''c1'', js ''c2'']\<rparr>"
  using sendQuery_maps_response
    [of "\<lambda>u b. if u = js ''/api/v1/query'' \<and> b = JObj [(js ''question'', JStr (js ''why''))]
             then Inr \<lparr>answer = js ''because'',
                       sources = Some [\<lparr>src_content = js ''c1'', src_source = None,
                                         src_score = Some 1\<rparr>,
                                       \<lparr>src_content = js ''c2'', src_source = None,
                                         src_score = None\<rparr>],
                       processing_time_ms = 12\<rparr>
             else Inl (AxiosError None)" "js ''why''"]
  by simp

section \<open>checkHealth (C8)\<close>

text \<open>
  Claim C8. \<open>checkHealth\<close> never throws: for every outcome of the request to
  \<open>/health\<close>, an error or a response with any payload (also \<open>null\<close> and \<open>undefined\<close>,
  where reading the status throws inside the \<open>try\<close> block), it returns a boolean. The
  boolean is \<open>true\<close> if and only if the request succeeds and the payload is an object
  whose \<open>status\<close> is the string \<open>ok\<close>.
\<close>

theorem checkHealth_total:
  "(\<exists>b. checkHealth get = Inr b)
   \<and> (checkHealth get = Inr True \<longleftrightarrow>
        (\<exists>kvs. get (js ''/health'') = Inr (Some (JObj kvs))
               \<and> map_of kvs (js ''status'') = Some (JStr (js ''ok''))))
   \<and> (\<forall>e. get (js ''/health'') = Inl e \<longrightarrow> checkHealth get = Inr False)"
proof -
  have a: "get_member d (js ''status'') = Inr (Some (JStr (js ''ok'')))
        \<longleftrightarrow> (\<exists>kvs. d = Some (JObj kvs) \<and> map_of kvs (js ''status'') = Some (JStr (js ''ok'')))"
    for d
    by (cases "(d, js ''status'')" rule: get_member.cases) auto
  show ?thesis
    using a [of "projr (get (js ''/health''))"]
    by (cases "get (js ''/health'')")
      (auto simp: checkHealth_def checkHealth_try_def split: sum.splits)
qed

theorem checkHealth_total_witness:
  "checkHealth (\<lambda>u. if u = js ''/health''
                     then Inr (Some (JObj [(js ''status'', JStr (js ''ok''))]))
                     else Inl (AxiosError None)) = Inr True
   \<and> checkHealth (\<lambda>u. Inr (Some JNull)) = Inr False
   \<and> checkHealth (\<lambda>u. Inr None) = Inr False
   \<and> checkHealth (\<lambda>u. Inr (Some (JObj [(js ''status'', JStr (js ''degraded''))]))) = Inr False
   \<and> checkHealth (\<lambda>u. Inl (AxiosError None)) = Inr False"
proof -
  have "checkHealth (\<lambda>u. if u = js ''/health''
                     then Inr (Some (JObj [(js ''status'', JStr (js ''ok''))]))
                     else Inl (AxiosError None)) = Inr True"
    using checkHealth_total [of "\<lambda>u. if u = js ''/health''
                     then Inr (Some (JObj [(js ''status'', JStr (js ''ok''))]))
                     else Inl (AxiosError None)"]
    by simp
  moreover have "checkHealth (\<lambda>u. Inl (AxiosError None)) = Inr False"
    using checkHealth_total [of "\<lambda>u. Inl (AxiosError None)"] by simp
  ultimately show ?thesis
    by (simp add: checkHealth_def checkHealth_try_def)
qed

section \<open>Generation metrics and the scorer's availability (C9)\<close>

text \<open>
  Claim C9. In a state where \<open>ragasAvailable\<close> is false, every request that
  \<open>handleEvaluate\<close> builds has \<open>include_generation_metrics = false\<close>, whatever the
  checkbox \<open>includeRagas\<close> says. In particular this is so after the mount effect has read
  a health report with \<open>ragas_available = false\<close>, for every later input of the user.
\<close>

theorem ragas_unavailable_no_generation_metrics:
  "(\<not> ragasAvailable s \<longrightarrow>
      (\<forall>r \<in> set (snd (handleEvaluate evaluateSingle s)). \<not> include_generation_metrics r))
   \<and> (\<not> ragas_available h \<longrightarrow>
      (\<forall>r \<in> set (snd (handleEvaluate evaluateSingle
                         ((loadInitialData getProfiles (Inr h) initial_page_state)
                            \<lparr>question := q, groundTruth := g, includeRagas := b,
                             selectedProfileId := p\<rparr>))).
          \<not> include_generation_metrics r))"
  by (auto simp: handleEvaluate_def evaluation_request_def Let_def loadInitialData_def
      initial_page_state_def split: sum.splits)

theorem ragas_unavailable_no_generation_metrics_witness:
  "\<not> ragasAvailable (initial_page_state\<lparr>question := js ''why'', includeRagas := True\<rparr>)
   \<and> map include_generation_metrics
        (snd (handleEvaluate (\<lambda>r. Inr (sample_result (req_question r)))
           (initial_page_state\<lparr>question := js ''why'', includeRagas := True\<rparr>))) = [False]"
proof -
  have why: "trim (js ''why'') = js ''why''"
    by (simp add: trim_def is_white_space_def js_def)
  have off: "\<not> ragasAvailable (initial_page_state\<lparr>question := js ''why'', includeRagas := True\<rparr>)"
    by (simp add: initial_page_state_def)
  have one: "length (snd (handleEvaluate (\<lambda>r. Inr (sample_result (req_question r)))
           (initial_page_state\<lparr>question := js ''why'', includeRagas := True\<rparr>))) = 1"
    by (simp add: handleEvaluate_def why)
  from ragas_unavailable_no_generation_metrics
    [of "initial_page_state\<lparr>question := js ''why'', includeRagas := True\<rparr>"
        "\<lambda>r. Inr (sample_result (req_question r))"] off
  have "\<forall>r \<in> set (snd (handleEvaluate (\<lambda>r. Inr (sample_result (req_question r)))
           (initial_page_state\<lparr>question := js ''why'', includeRagas := True\<rparr>))).
          \<not> include_generation_metrics r"
    by blast
  with one off show ?thesis
    by (cases "snd (handleEvaluate (\<lambda>r. Inr (sample_result (req_question r)))
           (initial_page_state\<lparr>question := js ''why'', includeRagas := True\<rparr>))") auto
qed

section \<open>Polling the upload status (C4)\<close>

lemma poll_reaches:
  assumes "i \<le> j" and "j < n"
    and "\<forall>k. i \<le> k \<and> k < j \<longrightarrow> (\<exists>d. get (js ''/api/v1/upload/'' @ t) k = Inr d \<and> \<not> terminal d)"
    and "get (js ''/api/v1/upload/'' @ t) j = Inr d" and "terminal d"
  shows "pollUploadStatus_from get t n i = Inr d"
  using assms
proof (induction "j - i" arbitrary: i)
  case 0
  then have "i = j" by simp
  with 0 show ?case
    by (subst pollUploadStatus_from.simps) (simp add: terminal_def)
next
  case (Suc m)
  then have lt: "i < j" and m: "m = j - (i + 1)" by simp_all
  from Suc.prems(3) lt obtain d' where d': "get (js ''/api/v1/upload/'' @ t) i = Inr d'"
    "\<not> terminal d'"
    by (metis le_refl)
  have "pollUploadStatus_from get t n (i + 1) = Inr d"
    using Suc.hyps(1) [OF m] Suc.prems lt by simp
  with d' lt Suc.prems(2) show ?case
    by (subst pollUploadStatus_from.simps) (simp add: terminal_def)
qed

lemma poll_timeout:
  assumes "\<forall>k. i \<le> k \<and> k < n \<longrightarrow> (\<exists>d. get (js ''/api/v1/upload/'' @ t) k = Inr d \<and> \<not> terminal d)"
  shows "pollUploadStatus_from get t n i = Inl (Error (js ''Upload timeout''))"
  using assms
proof (induction "n - i" arbitrary: i)
  case 0
  then show ?case
    by (subst pollUploadStatus_from.simps) simp
next
  case (Suc m)
  then have lt: "i < n" and m: "m = n - (i + 1)" by simp_all
  from Suc.prems lt obtain d' where d': "get (js ''/api/v1/upload/'' @ t) i = Inr d'"
    "\<not> terminal d'"
    by (metis le_refl)
  have "pollUploadStatus_from get t n (i + 1) = Inl (Error (js ''Upload timeout''))"
    using Suc.hyps(1) [OF m] Suc.prems by simp
  with d' lt show ?case
    by (subst pollUploadStatus_from.simps) (simp add: terminal_def)
qed

lemma first_terminal_cases:
  "(\<exists>i<n. first_terminal_at resp i) \<or> (\<forall>i<n. \<not> terminal (resp i))"
proof (cases "\<exists>i<n. terminal (resp i)")
  case True
  then obtain i where i: "i < n" "terminal (resp i)" by blast
  define m where "m = (LEAST k. terminal (resp k))"
  have "terminal (resp m)"
    unfolding m_def using i(2) by (rule LeastI)
  moreover have "\<forall>j<m. \<not> terminal (resp j)"
    unfolding m_def using not_less_Least by blast
  moreover have "m \<le> i"
    unfolding m_def using i(2) by (rule Least_le)
  ultimately show ?thesis
    using i(1) unfolding first_terminal_at_def by (meson le_less_trans)
next
  case False
  then show ?thesis by blast
qed

lemma first_terminal_unique:
  "first_terminal_at resp i \<Longrightarrow> first_terminal_at resp j \<Longrightarrow> i = j"
  unfolding first_terminal_at_def by (meson linorder_neqE_nat)

lemma poll_first_terminal:
  assumes get: "\<forall>i. get (js ''/api/v1/upload/'' @ t) i = Inr (resp i)"
    and i: "i < n" "first_terminal_at resp i"
  shows "pollUploadStatus get t n = Inr (resp i)"
  unfolding pollUploadStatus_def
  using get i by (intro poll_reaches [where j = i]) (auto simp: first_terminal_at_def)

lemma poll_none_terminal:
  assumes get: "\<forall>i. get (js ''/api/v1/upload/'' @ t) i = Inr (resp i)"
    and none: "\<forall>i<n. \<not> terminal (resp i)"
  shows "pollUploadStatus get t n = Inl (Error (js ''Upload timeout''))"
  unfolding pollUploadStatus_def
  using get none by (intro poll_timeout) auto

lemma uploadDocument_terminal:
  assumes post: "post (js ''/api/v1/upload'') file = Inr ur"
    and get: "\<forall>i. get (js ''/api/v1/upload/'' @ up_task_id ur) i = Inr (resp i)"
    and i: "i < 60" "first_terminal_at resp i"
  shows "uploadDocument post get file =
           (if us_status (resp i) = js ''failed'' then Inl (Error (failure_message (resp i)))
            else Inr (upload_result (resp i)))"
proof -
  have "pollUploadStatus get (up_task_id ur) 60 = Inr (resp i)"
    using get i by (rule poll_first_terminal [where resp = resp and i = i])
  with post show ?thesis
    by (simp add: uploadDocument_def failure_message_def upload_result_def
        split: option.splits)
qed

lemma uploadDocument_none_terminal:
  assumes post: "post (js ''/api/v1/upload'') file = Inr ur"
    and get: "\<forall>i. get (js ''/api/v1/upload/'' @ up_task_id ur) i = Inr (resp i)"
    and none: "\<forall>i<60. \<not> terminal (resp i)"
  shows "uploadDocument post get file = Inl (Error (js ''Upload timeout''))"
proof -
  have "pollUploadStatus get (up_task_id ur) 60 = Inl (Error (js ''Upload timeout''))"
    using get none by (rule poll_none_terminal [where resp = resp])
  with post show ?thesis
    by (simp add: uploadDocument_def)
qed

text \<open>
  Claim C4. \<open>uploadDocument\<close> polls the status endpoint of the task until a response
  reports \<open>completed\<close> or \<open>failed\<close>, at most 60 times. For every sequence \<open>resp\<close> of
  status responses: it returns a result exactly when the first such response comes
  within the 60 attempts and reports \<open>completed\<close>, and the result is the success value
  built from that response; it throws exactly when that response reports \<open>failed\<close> or
  none comes within the 60 attempts; on \<open>failed\<close> the error carries the error message
  the response reports (\<open>Upload failed\<close> when it reports none), and with no such
  response it is the upload-timeout error.
\<close>

theorem uploadDocument_polls_until_terminal:
  assumes post: "post (js ''/api/v1/upload'') file = Inr ur"
    and get: "\<forall>i. get (js ''/api/v1/upload/'' @ up_task_id ur) i = Inr (resp i)"
  shows "((\<exists>u. uploadDocument post get file = Inr u) \<longleftrightarrow>
            (\<exists>i<60. first_terminal_at resp i \<and> us_status (resp i) = js ''completed''))
       \<and> (\<forall>i<60. first_terminal_at resp i \<and> us_status (resp i) = js ''completed'' \<longrightarrow>
            uploadDocument post get file = Inr (upload_result (resp i)))
       \<and> ((\<exists>e. uploadDocument post get file = Inl e) \<longleftrightarrow>
            (\<exists>i<60. first_terminal_at resp i \<and> us_status (resp i) = js ''failed'')
            \<or> (\<forall>i<60. \<not> terminal (resp i)))
       \<and> (\<forall>i<60. first_terminal_at resp i \<and> us_status (resp i) = js ''failed'' \<longrightarrow>
            uploadDocument post get file = Inl (Error (failure_message (resp i))))
       \<and> ((\<forall>i<60. \<not> terminal (resp i)) \<longrightarrow>
            uploadDocument post get file = Inl (Error (js ''Upload timeout'')))"
    (is "(?returns \<longleftrightarrow> ?completed) \<and> ?outcome \<and> (?throws \<longleftrightarrow> ?failed \<or> ?never)
         \<and> ?message \<and> ?timeout")
proof -
  let ?run = "uploadDocument post get file"
  consider (reached) i where "i < 60" "first_terminal_at resp i"
    | (never) "\<forall>i<60. \<not> terminal (resp i)"
    using first_terminal_cases [of 60 resp] by blast
  then show ?thesis
  proof cases
    case reached
    have run: "?run =
           (if us_status (resp i) = js ''failed'' then Inl (Error (failure_message (resp i)))
            else Inr (upload_result (resp i)))"
      using post get reached by (rule uploadDocument_terminal [where resp = resp and i = i])
    have only: "j = i" if "first_terminal_at resp j" for j
      using that reached(2) by (rule first_terminal_unique)
    have "terminal (resp i)"
      using reached(2) by (simp add: first_terminal_at_def)
    with reached(1) have some: "\<not> ?never" by blast
    then have t: ?timeout by blast
    have st: "us_status (resp i) = js ''completed'' \<or> us_status (resp i) = js ''failed''"
      using reached(2) by (simp add: first_terminal_at_def terminal_def)
    show ?thesis
    proof (cases "us_status (resp i) = js ''failed''")
      case True
      then have nc: "us_status (resp i) \<noteq> js ''completed''" by simp
      from True run have r: "?run = Inl (Error (failure_message (resp i)))"
        by simp
      have a: "\<not> ?returns" using r by simp
      have b: "\<not> ?completed" using only nc by blast
      then have c: ?outcome by blast
      have d: ?throws using r by simp
      have e: ?failed using reached True by blast
      have f: ?message using only r by blast
      from a b c d e f t show ?thesis by simp
    next
      case False
      with st have cp: "us_status (resp i) = js ''completed''" by simp
      from False run have r: "?run = Inr (upload_result (resp i))"
        by simp
      have a: ?returns using r by simp
      have b: ?completed using reached cp by blast
      have c: ?outcome using only r by blast
      have d: "\<not> ?throws" using r by simp
      have e: "\<not> ?failed" using only False by blast
      then have f: ?message by blast
      from a b c d e f t some show ?thesis by simp
    qed
  next
    case never
    have r: "?run = Inl (Error (js ''Upload timeout''))"
      using post get never by (rule uploadDocument_none_terminal [where resp = resp])
    have none: "\<not> first_terminal_at resp j" if "j < 60" for j
      using never that by (simp add: first_terminal_at_def)
    have a: "\<not> ?returns" using r by simp
    have b: "\<not> ?completed" using none by blast
    then have c: ?outcome by blast
    have d: ?throws using r by simp
    have f: ?message using none by blast
    have t: ?timeout using r by simp
    from a b c d f t never show ?thesis by simp
  qed
qed

theorem uploadDocument_polls_until_terminal_witness:
  "uploadDocument
     (\<lambda>u f. if u = js ''/api/v1/upload'' then Inr sample_upload else Inl (AxiosError None))
     (\<lambda>u i. if u = js ''/api/v1/upload/t1''
             then Inr (if i = 2 then sample_status (js ''failed'') (Some (js ''parse error''))
                       else sample_status (js ''processing'') None)
             else Inl (AxiosError None))
     ()
   = Inl (Error (js ''parse error''))
   \<and> uploadDocument
     (\<lambda>u f. if u = js ''/api/v1/upload'' then Inr sample_upload else Inl (AxiosError None))
     (\<lambda>u i. Inr (if i = 59 then sample_status (js ''completed'') None
                  else sample_status (js ''processing'') None))
     ()
   = Inr (upload_result (sample_status (js ''completed'') None))
   \<and> uploadDocument
     (\<lambda>u f. if u = js ''/api/v1/upload'' then Inr sample_upload else Inl (AxiosError None))
     (\<lambda>u i. Inr (if i = 60 then sample_status (js ''completed'') None
                  else sample_status (js ''processing'') None))
     ()
   = Inl (Error (js ''Upload timeout''))"
proof -
  let ?post = "\<lambda>(u::jsstring) (f::unit).
     if u = js ''/api/v1/upload'' then Inr sample_upload else Inl (AxiosError None)"
  let ?failing = "\<lambda>i::nat. if i = 2 then sample_status (js ''failed'') (Some (js ''parse error''))
                       else sample_status (js ''processing'') None"
  let ?late = "\<lambda>i::nat. if i = 59 then sample_status (js ''completed'') None
                  else sample_status (js ''processing'') None"
  let ?too_late = "\<lambda>i::nat. if i = 60 then sample_status (js ''completed'') None
                  else sample_status (js ''processing'') None"
  have post: "?post (js ''/api/v1/upload'') () = Inr sample_upload"
    by simp
  have url: "js ''/api/v1/upload/'' @ up_task_id sample_upload = js ''/api/v1/upload/t1''"
    by (simp add: sample_upload_def js_def)
  have a: "first_terminal_at ?failing 2 \<and> us_status (?failing 2) = js ''failed''"
    by (simp add: first_terminal_at_def terminal_def sample_status_def)
  have b: "first_terminal_at ?late 59 \<and> us_status (?late 59) = js ''completed''"
    by (simp add: first_terminal_at_def terminal_def sample_status_def)
  have c: "\<forall>i<60. \<not> terminal (?too_late i)"
    by (simp add: terminal_def sample_status_def)
  let ?get = "\<lambda>(u::jsstring) (i::nat).
     if u = js ''/api/v1/upload/t1'' then Inr (?failing i) else Inl (AxiosError None)"
  have g: "\<forall>i. ?get (js ''/api/v1/upload/'' @ up_task_id sample_upload) i = Inr (?failing i)"
    by (simp add: url)
  note failing = uploadDocument_polls_until_terminal
      [of ?post "()" sample_upload ?get ?failing, OF post g,
       THEN conjunct2, THEN conjunct2, THEN conjunct2, THEN conjunct1, rule_format, of 2]
  have "uploadDocument ?post ?get () = Inl (Error (failure_message (?failing 2)))"
    using a by (intro failing) simp_all
  then have x: "uploadDocument ?post ?get () = Inl (Error (js ''parse error''))"
    by (simp add: failure_message_def sample_status_def)
  have g2: "\<forall>i. (\<lambda>(u::jsstring) i. Inr (?late i)) (js ''/api/v1/upload/'' @ up_task_id sample_upload) i
              = (Inr (?late i) :: js_error + BackendUploadStatusResponse)"
    by simp
  note late = uploadDocument_polls_until_terminal
      [of ?post "()" sample_upload "\<lambda>u i. Inr (?late i)" ?late, OF post g2,
       THEN conjunct2, THEN conjunct1, rule_format, of 59]
  have "uploadDocument ?post (\<lambda>u i. Inr (?late i)) () = Inr (upload_result (?late 59))"
    using b by (intro late) simp_all
  then have y: "uploadDocument ?post (\<lambda>u i. Inr (?late i)) ()
      = Inr (upload_result (sample_status (js ''completed'') None))"
    by simp
  have g3: "\<forall>i. (\<lambda>(u::jsstring) i. Inr (?too_late i)) (js ''/api/v1/upload/'' @ up_task_id sample_upload) i
              = (Inr (?too_late i) :: js_error + BackendUploadStatusResponse)"
    by simp
  note too_late = uploadDocument_polls_until_terminal
      [of ?post "()" sample_upload "\<lambda>u i. Inr (?too_late i)" ?too_late, OF post g3,
       THEN conjunct2, THEN conjunct2, THEN conjunct2, THEN conjunct2]
  have z: "uploadDocument ?post (\<lambda>u i. Inr (?too_late i)) () = Inl (Error (js ''Upload timeout''))"
    using c by (rule mp [OF too_late])
  from x y z show ?thesis
    by (intro conjI)
qed

section \<open>The latency chart (C3)\<close>

text \<open>
  Claim C3, as stated, says that in every \<open>LatencyBreakdown\<close> value the total is at
  least each stage component, so that every width the chart computes is at most 100.
  The type has five independent numbers, and the chart computes \<open>value / total * 100\<close>
  without a check: with a total of 10 and a retrieval time of 20 the width is 200.
  With all five numbers 0 the total is at least each component, but every width is
  \<open>0 / 0 * 100\<close>, which is NaN, is drawn (\<open>NaN < 1\<close> is false) and is not at most 100.
\<close>

theorem latency_width_bound_counterexample:
  "\<not> retrieval_ms \<lparr>total_ms = 10, query_rewrite_ms = 1, retrieval_ms = 20,
                     rerank_ms = 2, generation_ms = 3\<rparr>
        \<le> total_ms \<lparr>total_ms = 10, query_rewrite_ms = 1, retrieval_ms = 20,
                      rerank_ms = 2, generation_ms = 3\<rparr>
   \<and> stacked_bar \<lparr>total_ms = 10, query_rewrite_ms = 1, retrieval_ms = 20,
                   rerank_ms = 2, generation_ms = 3\<rparr>
       = [Some (js ''bg-blue-500'', Fin 10), Some (js ''bg-green-500'', Fin 200),
          Some (js ''bg-amber-500'', Fin 20), Some (js ''bg-purple-500'', Fin 30)]
   \<and> \<not> js_le (Fin 200) 100
   \<and> stacked_bar \<lparr>total_ms = 0, query_rewrite_ms = 0, retrieval_ms = 0,
                   rerank_ms = 0, generation_ms = 0\<rparr>
       = [Some (js ''bg-blue-500'', NaN), Some (js ''bg-green-500'', NaN),
          Some (js ''bg-amber-500'', NaN), Some (js ''bg-purple-500'', NaN)]
   \<and> \<not> js_le NaN 100"
  by (simp add: stacked_bar_def segments_def segment_width_def js_div_def)

text \<open>
  Claim C3, amended. For every \<open>LatencyBreakdown\<close> value whose total is positive and at
  least each of the four stage components, every width the chart computes is the
  finite number \<open>value / total * 100\<close> and is at most 100, and so is the width of every
  bar it draws. The chart itself does not check that the total bounds the components.
\<close>

theorem latency_width_bound:
  assumes "0 < total_ms lb"
    and "query_rewrite_ms lb \<le> total_ms lb" and "retrieval_ms lb \<le> total_ms lb"
    and "rerank_ms lb \<le> total_ms lb" and "generation_ms lb \<le> total_ms lb"
  shows "(\<forall>seg \<in> set (segments lb).
            \<exists>w. segment_width lb seg = Fin w \<and> w = seg_value seg / total_ms lb * 100
                \<and> w \<le> 100)
       \<and> (\<forall>bar \<in> set (stacked_bar lb). \<forall>c w. bar = Some (c, w) \<longrightarrow> js_le w 100)"
proof -
  have bound: "v / total_ms lb * 100 \<le> 100" if "v \<le> total_ms lb" for v
    using that assms(1) by (simp add: pos_divide_le_eq)
  have a: "\<forall>seg \<in> set (segments lb).
           \<exists>w. segment_width lb seg = Fin w \<and> w = seg_value seg / total_ms lb * 100 \<and> w \<le> 100"
    using assms bound by (simp add: segments_def segment_width_def js_div_def)
  have "\<forall>bar \<in> set (stacked_bar lb). \<forall>c w. bar = Some (c, w) \<longrightarrow> js_le w 100"
  proof (intro ballI allI impI)
    fix bar c w
    assume "bar \<in> set (stacked_bar lb)" and "bar = Some (c, w)"
    then obtain seg where "seg \<in> set (segments lb)" and "w = segment_width lb seg"
      by (auto simp: stacked_bar_def Let_def split: if_splits)
    with a show "js_le w 100"
      by fastforce
  qed
  with a show ?thesis by (rule conjI)
qed

theorem latency_width_bound_witness:
  "stacked_bar (latency (sample_result (js ''q'')))
     = [Some (js ''bg-blue-500'', Fin (25 / 3)), Some (js ''bg-green-500'', Fin 25),
        Some (js ''bg-amber-500'', Fin (50 / 3)), Some (js ''bg-purple-500'', Fin 50)]
   \<and> js_le (Fin (25 / 3)) 100 \<and> js_le (Fin 25) 100 \<and> js_le (Fin (50 / 3)) 100
   \<and> js_le (Fin 50) 100"
proof -
  let ?lb = "latency (sample_result (js ''q''))"
  have bars: "stacked_bar ?lb
     = [Some (js ''bg-blue-500'', Fin (25 / 3)), Some (js ''bg-green-500'', Fin 25),
        Some (js ''bg-amber-500'', Fin (50 / 3)), Some (js ''bg-purple-500'', Fin 50)]"
    by (simp add: stacked_bar_def segments_def segment_width_def js_div_def sample_result_def)
  have "\<forall>bar \<in> set (stacked_bar ?lb). \<forall>c w. bar = Some (c, w) \<longrightarrow> js_le w 100"
    by (rule latency_width_bound [of ?lb, THEN conjunct2]) (simp_all add: sample_result_def)
  then show ?thesis
    unfolding bars by simp
qed

section \<open>The metrics card (C10)\<close>

lemma digit_char_in: "digit_char d \<in> set (js ''0123456789'')"
  unfolding digit_char_def by (rule nth_mem) (simp add: js_def)

lemma decimal_digits_set: "set (decimal_digits n) \<subseteq> set (js ''0123456789'')"
proof (induction n rule: decimal_digits.induct)
  case (1 n)
  show ?case
  proof (cases "n < 10")
    case True
    then show ?thesis
      using digit_char_in [of n] by (subst decimal_digits.simps) simp
  next
    case False
    then show ?thesis
      using 1 digit_char_in [of "n mod 10"] by (subst decimal_digits.simps) simp
  qed
qed

lemma assemble_subset:
  assumes "set sign \<subseteq> S" and "set m \<subseteq> S" and "set p \<subseteq> S" and "set dot \<subseteq> S"
  shows "set (sign @ (if d = 0 then m else take a p @ dot @ drop a p)) \<subseteq> S"
  using assms set_take_subset [of a p] set_drop_subset [of a p] by auto

lemma toFixed_decimal_set: "set (toFixed_decimal x d) \<subseteq> set (js ''-.0123456789'')"
proof -
  have sub: "set (js ''0123456789'') \<subseteq> set (js ''-.0123456789'')"
    by (simp add: js_def)
  have z: "digit_char 0 \<in> set (js ''-.0123456789'')"
    using digit_char_in [of 0] sub by blast
  have m: "set (decimal_digits n) \<subseteq> set (js ''-.0123456789'')" for n
    using decimal_digits_set [of n] sub by blast
  have p: "set (replicate k (digit_char 0) @ decimal_digits n) \<subseteq> set (js ''-.0123456789'')"
    for k n
    using z m [of n] by (auto simp: set_replicate_conv_if)
  have dot: "set (js ''.'') \<subseteq> set (js ''-.0123456789'')"
    by (simp add: js_def)
  have sign: "set (if x < 0 then js ''-'' else []) \<subseteq> set (js ''-.0123456789'')"
    by (cases "x < 0") (simp_all add: js_def)
  show ?thesis
    unfolding toFixed_decimal_def Let_def
    using sign m p dot by (rule assemble_subset)
qed

lemma toFixed_decimal_no_slash: "0x2F \<notin> set (toFixed_decimal x d)"
proof -
  have "(0x2F :: 16 word) \<notin> set (js ''-.0123456789'')"
    by (simp add: js_def)
  then show ?thesis
    using toFixed_decimal_set [of x d] by blast
qed


lemma N_A_has_slash: "0x2F \<in> set (js ''N/A'')"
  by (simp add: js_def)

lemma formatValue_N_A:
  assumes "\<forall>x d. 0x2F \<notin> set (toFixed x d)"
  shows "formatValue toFixed fmt val = js ''N/A'' \<longleftrightarrow> val = None"
proof (cases val)
  case None
  then show ?thesis by (simp add: formatValue_def)
next
  case (Some v)
  have "0x2F \<notin> set (formatValue toFixed fmt (Some v))"
    using assms by (cases fmt) (simp_all add: formatValue_def js_def)
  then have "formatValue toFixed fmt (Some v) \<noteq> js ''N/A''"
    using N_A_has_slash by force
  with Some show ?thesis
    by simp
qed

text \<open>
  Claim C10. The card shows the text \<open>N/A\<close> exactly when the metric value is null.
  When a numeric target is given, the value has the success colour (green) if and only
  if there is a value and it is at most the target when the \<open>format\<close> prop is \<open>ms\<close>,
  and at least the target when the prop is \<open>percent\<close>, \<open>number\<close> or left out (the
  default is percent). The one property of \<open>toFixed\<close> this rests on is that a formatted
  number contains no slash.
\<close>

theorem MetricsCard_N_A_and_status:
  assumes "\<forall>x d. 0x2F \<notin> set (toFixed x d)"
  shows "(value_text (MetricsCard toFixed props) = js ''N/A'' \<longleftrightarrow> mc_value props = None)
       \<and> (\<forall>t. target props = Some t \<longrightarrow>
            (value_class (MetricsCard toFixed props) = js ''text-green-600'' \<longleftrightarrow>
               (\<exists>v. mc_value props = Some v
                  \<and> (if format props = Some ms then v \<le> t else v \<ge> t))))"
proof -
  have a: "value_text (MetricsCard toFixed props) = js ''N/A'' \<longleftrightarrow> mc_value props = None"
    using formatValue_N_A [OF assms] by (simp add: MetricsCard_def)
  have fmt: "format_of props = ms \<longleftrightarrow> format props = Some ms"
    by (cases "format props") (simp_all add: format_of_def)
  have b: "\<forall>t. target props = Some t \<longrightarrow>
            (value_class (MetricsCard toFixed props) = js ''text-green-600'' \<longleftrightarrow>
               (\<exists>v. mc_value props = Some v
                  \<and> (if format props = Some ms then v \<le> t else v \<ge> t)))"
  proof (cases "mc_value props")
    case None
    then show ?thesis
      by (simp add: MetricsCard_def getStatusColor_def split: option.splits)
  next
    case (Some v)
    then show ?thesis
      by (simp add: MetricsCard_def getStatusColor_def fmt)
  qed
  from a b show ?thesis by (rule conjI)
qed

theorem MetricsCard_N_A_and_status_witness:
  "value_text (MetricsCard toFixed_decimal
      \<lparr>title = js ''Recall@5'', mc_value = None, subtitle = None, format = None,
       target = Some 0.85\<rparr>) = js ''N/A''
   \<and> value_text (MetricsCard toFixed_decimal
      \<lparr>title = js ''Recall@5'', mc_value = Some 0.9, subtitle = None, format = None,
       target = Some 0.85\<rparr>) = js ''90.0%''
   \<and> value_class (MetricsCard toFixed_decimal
      \<lparr>title = js ''Recall@5'', mc_value = Some 0.9, subtitle = None, format = None,
       target = Some 0.85\<rparr>) = js ''text-green-600''
   \<and> value_class (MetricsCard toFixed_decimal
      \<lparr>title = js ''Latency'', mc_value = Some 80, subtitle = None, format = Some ms,
       target = Some 100\<rparr>) = js ''text-green-600''
   \<and> value_class (MetricsCard toFixed_decimal
      \<lparr>title = js ''Latency'', mc_value = Some 120, subtitle = None, format = Some ms,
       target = Some 100\<rparr>) \<noteq> js ''text-green-600''
   \<and> value_class (MetricsCard toFixed_decimal
      \<lparr>title = js ''Docs'', mc_value = Some 3, subtitle = None, format = Some number,
       target = Some 2\<rparr>) = js ''text-green-600''
   \<and> value_class (MetricsCard toFixed_decimal
      \<lparr>title = js ''Docs'', mc_value = Some 1, subtitle = None, format = Some number,
       target = Some 2\<rparr>) \<noteq> js ''text-green-600''
   \<and> value_class (MetricsCard toFixed_decimal
      \<lparr>title = js ''MRR'', mc_value = Some 0.9, subtitle = None, format = Some percent,
       target = Some 0.7\<rparr>) = js ''text-green-600''
   \<and> value_class (MetricsCard toFixed_decimal
      \<lparr>title = js ''MRR'', mc_value = Some 0.5, subtitle = None, format = Some percent,
       target = Some 0.7\<rparr>) \<noteq> js ''text-green-600''"
proof -
  have slash: "\<forall>x d. 0x2F \<notin> set (toFixed_decimal x d)"
    using toFixed_decimal_no_slash by blast
  let ?null = "\<lparr>title = js ''Recall@5'', mc_value = None, subtitle = None, format = None,
       target = Some 0.85\<rparr>"
  let ?good = "\<lparr>title = js ''Recall@5'', mc_value = Some 0.9, subtitle = None, format = None,
       target = Some 0.85\<rparr>"
  let ?fast = "\<lparr>title = js ''Latency'', mc_value = Some 80, subtitle = None, format = Some ms,
       target = Some 100\<rparr>"
  let ?slow = "\<lparr>title = js ''Latency'', mc_value = Some 120, subtitle = None, format = Some ms,
       target = Some 100\<rparr>"
  let ?many = "\<lparr>title = js ''Docs'', mc_value = Some 3, subtitle = None, format = Some number,
       target = Some 2\<rparr>"
  let ?few = "\<lparr>title = js ''Docs'', mc_value = Some 1, subtitle = None, format = Some number,
       target = Some 2\<rparr>"
  let ?high = "\<lparr>title = js ''MRR'', mc_value = Some 0.9, subtitle = None,
       format = Some percent, target = Some 0.7\<rparr>"
  let ?low = "\<lparr>title = js ''MRR'', mc_value = Some 0.5, subtitle = None,
       format = Some percent, target = Some 0.7\<rparr>"
  have a: "value_text (MetricsCard toFixed_decimal ?null) = js ''N/A''"
    using MetricsCard_N_A_and_status [of toFixed_decimal ?null, OF slash, THEN conjunct1]
    by simp
  have b: "value_text (MetricsCard toFixed_decimal ?good) = js ''90.0%''"
    by (simp add: MetricsCard_def formatValue_def format_of_def toFixed_decimal_def
        decimal_digits.simps digit_char_def js_def)
  have c: "value_class (MetricsCard toFixed_decimal ?good) = js ''text-green-600''"
  proof -
    have tg: "target ?good = Some 0.85" by simp
    have ex: "\<exists>v. mc_value ?good = Some v
                \<and> (if format ?good = Some ms then v \<le> 0.85 else v \<ge> 0.85)"
      by (rule exI [of _ "0.9"]) simp
    note T = MetricsCard_N_A_and_status [of toFixed_decimal ?good, OF slash, THEN conjunct2,
        rule_format, OF tg]
    from ex show ?thesis by (rule iffD2 [OF T])
  qed
  have d: "value_class (MetricsCard toFixed_decimal ?fast) = js ''text-green-600''"
  proof -
    have tg: "target ?fast = Some 100" by simp
    have ex: "\<exists>v. mc_value ?fast = Some v
                \<and> (if format ?fast = Some ms then v \<le> 100 else v \<ge> 100)"
      by (rule exI [of _ 80]) simp
    note T = MetricsCard_N_A_and_status [of toFixed_decimal ?fast, OF slash, THEN conjunct2,
        rule_format, OF tg]
    from ex show ?thesis by (rule iffD2 [OF T])
  qed
  have e: "value_class (MetricsCard toFixed_decimal ?slow) \<noteq> js ''text-green-600''"
  proof -
    have tg: "target ?slow = Some 100" by simp
    have nex: "\<not> (\<exists>v. mc_value ?slow = Some v
                \<and> (if format ?slow = Some ms then v \<le> 100 else v \<ge> 100))"
      by simp
    note T = MetricsCard_N_A_and_status [of toFixed_decimal ?slow, OF slash, THEN conjunct2,
        rule_format, OF tg]
    from nex T show ?thesis by blast
  qed
  have f: "value_class (MetricsCard toFixed_decimal ?many) = js ''text-green-600''"
  proof -
    have tg: "target ?many = Some 2" by simp
    have ex: "\<exists>v. mc_value ?many = Some v
                \<and> (if format ?many = Some ms then v \<le> 2 else v \<ge> 2)"
      by (rule exI [of _ 3]) simp
    note T = MetricsCard_N_A_and_status [of toFixed_decimal ?many, OF slash, THEN conjunct2,
        rule_format, OF tg]
    from ex show ?thesis by (rule iffD2 [OF T])
  qed
  have g: "value_class (MetricsCard toFixed_decimal ?few) \<noteq> js ''text-green-600''"
  proof -
    have tg: "target ?few = Some 2" by simp
    have nex: "\<not> (\<exists>v. mc_value ?few = Some v
                \<and> (if format ?few = Some ms then v \<le> 2 else v \<ge> 2))"
      by simp
    note T = MetricsCard_N_A_and_status [of toFixed_decimal ?few, OF slash, THEN conjunct2,
        rule_format, OF tg]
    from nex T show ?thesis by blast
  qed
  have h: "value_class (MetricsCard toFixed_decimal ?high) = js ''text-green-600''"
  proof -
    have tg: "target ?high = Some 0.7" by simp
    have ex: "\<exists>v. mc_value ?high = Some v
                \<and> (if format ?high = Some ms then v \<le> 0.7 else v \<ge> 0.7)"
      by (rule exI [of _ "0.9"]) simp
    note T = MetricsCard_N_A_and_status [of toFixed_decimal ?high, OF slash, THEN conjunct2,
        rule_format, OF tg]
    from ex show ?thesis by (rule iffD2 [OF T])
  qed
  have i: "value_class (MetricsCard toFixed_decimal ?low) \<noteq> js ''text-green-600''"
  proof -
    have tg: "target ?low = Some 0.7" by simp
    have nex: "\<not> (\<exists>v. mc_value ?low = Some v
                \<and> (if format ?low = Some ms then v \<le> 0.7 else v \<ge> 0.7))"
      by simp
    note T = MetricsCard_N_A_and_status [of toFixed_decimal ?low, OF slash, THEN conjunct2,
        rule_format, OF tg]
    from nex T show ?thesis by blast
  qed
  from a b c d e f g h i show ?thesis
    by (intro conjI)
qed

section \<open>Reciprocal Rank Fusion (C6)\<close>

lemma rank_in_None_iff: "rank_in l d = None \<longleftrightarrow> d \<notin> doc_id ` set l"
  by (auto simp: rank_in_def find_None_iff)

lemma fused_ids_set: "set (fused_ids ls) = doc_id ` (\<Union>l \<in> set ls. set l)"
  by (auto simp: fused_ids_def)

lemma rrf_fuse_ids: "doc_id ` set (rrf_fuse c ls k) \<subseteq> set (fused_ids ls)"
proof -
  have "map doc_id (rrf_fuse c ls k) = take k (fused_order c ls)"
    by (simp add: rrf_fuse_def map_idI enumerate_eq_zip comp_def split_def
        flip: map_map [unfolded comp_def])
  then have "doc_id ` set (rrf_fuse c ls k) = set (take k (fused_order c ls))"
    by (metis set_map)
  also have "\<dots> \<subseteq> set (fused_order c ls)"
    by (rule set_take_subset)
  also have "\<dots> = set (fused_ids ls)"
    by (simp add: fused_order_def)
  finally show ?thesis .
qed

lemma rrf_fuse_score:
  "e \<in> set (rrf_fuse c ls k) \<Longrightarrow> score e = fused_score c ls (doc_id e)"
  by (auto simp: rrf_fuse_def)

lemma rank_in_Some_D: "rank_in l d = Some r \<Longrightarrow> \<exists>e \<in> set l. doc_id e = d \<and> rank e = r"
  by (auto simp: rank_in_def find_Some_iff)

text \<open>
  Claim C6. In the fusion of two ranked lists \<open>a\<close> and \<open>b\<close>, a doc_id that is present
  in exactly one of them, at rank \<open>r\<close> there, has the fused score
  \<open>1 / (rrf_constant + r)\<close>, and that is the score of its entry in the fused output;
  a doc_id that is absent from both lists does not appear in the fused output.
\<close>

theorem rrf_score_of_single_list:
  "(rank_in a d = Some r \<and> rank_in b d = None \<longrightarrow>
      fused_score c [a, b] d = 1 / (c + real r)
      \<and> (\<forall>e \<in> set (rrf_fuse c [a, b] k). doc_id e = d \<longrightarrow> score e = 1 / (c + real r)))
   \<and> (rank_in a d = None \<and> rank_in b d = Some r \<longrightarrow>
      fused_score c [a, b] d = 1 / (c + real r)
      \<and> (\<forall>e \<in> set (rrf_fuse c [a, b] k). doc_id e = d \<longrightarrow> score e = 1 / (c + real r)))
   \<and> (d \<notin> doc_id ` set a \<and> d \<notin> doc_id ` set b \<longrightarrow>
      d \<notin> doc_id ` set (rrf_fuse c [a, b] k))"
proof -
  have left: "fused_score c [a, b] d = 1 / (c + real r)"
    if "rank_in a d = Some r" "rank_in b d = None"
    using that by (simp add: fused_score_def rrf_term_def)
  have right: "fused_score c [a, b] d = 1 / (c + real r)"
    if "rank_in a d = None" "rank_in b d = Some r"
    using that by (simp add: fused_score_def rrf_term_def)
  have entries: "\<forall>e \<in> set (rrf_fuse c [a, b] k). doc_id e = d \<longrightarrow> score e = x"
    if "fused_score c [a, b] d = x" for x
    using that rrf_fuse_score [of _ c "[a, b]" k] by blast
  have absent: "d \<notin> doc_id ` set (rrf_fuse c [a, b] k)"
    if "d \<notin> doc_id ` set a" "d \<notin> doc_id ` set b"
  proof -
    have "d \<notin> set (fused_ids [a, b])"
      using that by (simp add: fused_ids_set image_Un)
    then show ?thesis
      using rrf_fuse_ids [of c "[a, b]" k] by blast
  qed
  show ?thesis
    using left right entries absent by blast
qed

theorem rrf_score_of_single_list_witness:
  "rank_in dense_list (js ''d1'') = Some 1 \<and> rank_in sparse_list (js ''d1'') = None
   \<and> fused_score 60 [dense_list, sparse_list] (js ''d1'') = 1 / 61
   \<and> js ''d9'' \<notin> doc_id ` set dense_list \<and> js ''d9'' \<notin> doc_id ` set sparse_list
   \<and> js ''d9'' \<notin> doc_id ` set (rrf_fuse 60 [dense_list, sparse_list] 10)
   \<and> map doc_id (rrf_fuse 60 [dense_list, sparse_list] 10) = [js ''d2'', js ''d1'', js ''d3'']
   \<and> map score (rrf_fuse 60 [dense_list, sparse_list] 10) = [1 / 62 + 1 / 61, 1 / 61, 1 / 62]"
proof -
  have a: "rank_in dense_list (js ''d1'') = Some 1 \<and> rank_in sparse_list (js ''d1'') = None"
    by (simp add: rank_in_def dense_list_def sparse_list_def)
  have b: "js ''d9'' \<notin> doc_id ` set dense_list \<and> js ''d9'' \<notin> doc_id ` set sparse_list"
    by (simp add: dense_list_def sparse_list_def)
  note T = rrf_score_of_single_list [of dense_list "js ''d1''" 1 sparse_list 60 10]
  note U = rrf_score_of_single_list [of dense_list "js ''d9''" 1 sparse_list 60 10]
  have s: "fused_score 60 [dense_list, sparse_list] (js ''d1'') = 1 / 61"
    using T a by simp
  have n: "js ''d9'' \<notin> doc_id ` set (rrf_fuse 60 [dense_list, sparse_list] 10)"
    using U b by blast
  have ids: "map doc_id (rrf_fuse 60 [dense_list, sparse_list] 10)
               = [js ''d2'', js ''d1'', js ''d3'']"
    by (simp add: rrf_fuse_def fused_order_def fused_ids_def min_rank_def fused_score_def
        rrf_term_def rank_in_def dense_list_def sparse_list_def enumerate_eq_zip
        less_eq_prod_def less_prod_def)
  have sc: "map score (rrf_fuse 60 [dense_list, sparse_list] 10)
               = [1 / 62 + 1 / 61, 1 / 61, 1 / 62]"
    by (simp add: rrf_fuse_def fused_order_def fused_ids_def min_rank_def fused_score_def
        rrf_term_def rank_in_def dense_list_def sparse_list_def enumerate_eq_zip
        less_eq_prod_def less_prod_def)
  from a s b n ids sc show ?thesis
    by (intro conjI) simp_all
qed

section \<open>Recall at k (C7)\<close>

text \<open>
  Claim C7. For a fixed retrieved list and a fixed non-empty set of relevant
  documents, \<open>recall_at_k\<close> is defined for every \<open>k\<close> and does not decrease as \<open>k\<close>
  grows: for \<open>k1 \<le> k2\<close>, the recall at \<open>k1\<close> is at most the recall at \<open>k2\<close>.
\<close>

theorem recall_at_k_mono:
  assumes "k1 \<le> k2" and "relevant \<noteq> []"
  shows "\<exists>r1 r2. recall_at_k k1 retrieved relevant = Some r1
               \<and> recall_at_k k2 retrieved relevant = Some r2 \<and> r1 \<le> r2"
proof -
  have "set (take k1 retrieved) \<inter> set relevant \<subseteq> set (take k2 retrieved) \<inter> set relevant"
    using set_take_subset_set_take [OF assms(1), of retrieved] by blast
  then have "card (set (take k1 retrieved) \<inter> set relevant)
               \<le> card (set (take k2 retrieved) \<inter> set relevant)"
    by (intro card_mono) simp_all
  then have "real (card (set (take k1 retrieved) \<inter> set relevant)) / real (card (set relevant))
               \<le> real (card (set (take k2 retrieved) \<inter> set relevant)) / real (card (set relevant))"
    by (intro divide_right_mono) simp_all
  with assms(2) show ?thesis
    by (simp add: recall_at_k_def)
qed

theorem recall_at_k_mono_witness:
  "recall_at_k 2 [js ''d2'', js ''d1'', js ''d4'', js ''d3'', js ''d5''] [js ''d1'', js ''d3'']
     = Some (1 / 2)
   \<and> recall_at_k 5 [js ''d2'', js ''d1'', js ''d4'', js ''d3'', js ''d5''] [js ''d1'', js ''d3'']
     = Some 1
   \<and> (1 / 2 :: real) \<le> 1"
proof -
  let ?retrieved = "[js ''d2'', js ''d1'', js ''d4'', js ''d3'', js ''d5'']"
  let ?relevant = "[js ''d1'', js ''d3'']"
  have a: "recall_at_k 2 ?retrieved ?relevant = Some (1 / 2)"
    by (simp add: recall_at_k_def)
  have b: "recall_at_k 5 ?retrieved ?relevant = Some 1"
    by (simp add: recall_at_k_def)
  have "(2::nat) \<le> 5" and "?relevant \<noteq> []"
    by simp_all
  then obtain r1 r2 where "recall_at_k 2 ?retrieved ?relevant = Some r1"
    and "recall_at_k 5 ?retrieved ?relevant = Some r2" and "r1 \<le> r2"
    using recall_at_k_mono [of 2 5 ?relevant ?retrieved] by blast
  with a b show ?thesis
    by simp
qed

end
